theory Spec2Isabelle
  imports Main
begin

section \<open>The legacy adapter of kizuna: \<open>backend/src/middleware/legacyAdapter.ts\<close>\<close>

text \<open>
  The adapter turns a raw legacy task (\<open>ILegacyTask\<close>, a document with optional,
  inconsistently named fields) into a \<open>NormalizedTask\<close>. The development embeds each
  resolver of the source file, \<open>normalizeTask\<close> and \<open>legacyAdapterMiddleware\<close>, together
  with the parts of the JavaScript runtime they call.
\<close>

subsection \<open>JavaScript strings\<close>

text \<open>
  A string is a list of characters; a \<^typ>\<open>char\<close> stands for the code unit of the same
  number, so the strings of the model are those over U+0000 .. U+00FF. On this range
  \<open>String.prototype.trim\<close> removes the code units 9 .. 13 (tab, line feed, vertical tab, form
  feed, carriage return), 32 (space) and 160 (no-break space), and
  \<open>String.prototype.toLowerCase\<close> adds 32 to the code units 65 .. 90 (A .. Z) and
  192 .. 222 except 215 (the accented capitals; 215 is the multiplication sign).
\<close>

definition isWhiteSpace :: "char \<Rightarrow> bool" where
  "isWhiteSpace c =
     (let n = (of_char c :: nat) in (9 \<le> n \<and> n \<le> 13) \<or> n = 32 \<or> n = 160)"

definition trim :: "string \<Rightarrow> string" where
  "trim s = rev (dropWhile isWhiteSpace (rev (dropWhile isWhiteSpace s)))"

definition isUpper :: "char \<Rightarrow> bool" where
  "isUpper c =
     (let n = (of_char c :: nat) in (65 \<le> n \<and> n \<le> 90) \<or> (192 \<le> n \<and> n \<le> 222 \<and> n \<noteq> 215))"

definition toLowerChar :: "char \<Rightarrow> char" where
  "toLowerChar c = (if isUpper c then char_of ((of_char c :: nat) + 32) else c)"

definition toLowerCase :: "string \<Rightarrow> string" where
  "toLowerCase s = map toLowerChar s"

text \<open>\<open>s.split(",")\<close>: the pieces between the separators; the empty string has one piece.\<close>

fun split :: "char \<Rightarrow> string \<Rightarrow> string list" where
  "split sep [] = [[]]"
| "split sep (c # cs) =
     (if c = sep then [] # split sep cs
      else (case split sep cs of
              [] \<Rightarrow> [[c]]
            | w # ws \<Rightarrow> (c # w) # ws))"

text \<open>
  \<open>String(n)\<close> for a number: the numeric codes of the model are integers, which JavaScript
  prints in plain decimal (for every integer of magnitude up to \<open>2^53\<close>).
\<close>

definition digitChar :: "nat \<Rightarrow> char" where
  "digitChar d = ''0123456789'' ! d"

fun natToString :: "nat \<Rightarrow> string" where
  "natToString n =
     (if n < 10 then [digitChar n] else natToString (n div 10) @ [digitChar (n mod 10)])"

definition numberToString :: "int \<Rightarrow> string" where
  "numberToString n =
     (if n < 0 then CHR ''-'' # natToString (nat (- n)) else natToString (nat n))"

subsection \<open>Property lookup in an object literal\<close>

text \<open>
  \<open>statusMap\<close> and \<open>priorityMap\<close> are object literals, and \<open>statusMap[s]\<close> is an ordinary
  property read: it finds the own properties of the literal and then the properties that
  every object literal inherits from \<open>Object.prototype\<close>. A read therefore yields a string
  of the table, a built-in function, the prototype object itself (\<open>__proto__\<close>), or
  \<open>undefined\<close> (\<open>None\<close>).
\<close>

datatype jsval = JString string | JFunction string | JObjectPrototype

fun truthy :: "jsval \<Rightarrow> bool" where
  "truthy (JString s) = (s \<noteq> [])"
| "truthy (JFunction f) = True"
| "truthy JObjectPrototype = True"

definition objectPrototype :: "(string \<times> jsval) list" where
  "objectPrototype =
     [(''constructor'', JFunction ''Object''),
      (''__defineGetter__'', JFunction ''__defineGetter__''),
      (''__defineSetter__'', JFunction ''__defineSetter__''),
      (''hasOwnProperty'', JFunction ''hasOwnProperty''),
      (''__lookupGetter__'', JFunction ''__lookupGetter__''),
      (''__lookupSetter__'', JFunction ''__lookupSetter__''),
      (''isPrototypeOf'', JFunction ''isPrototypeOf''),
      (''propertyIsEnumerable'', JFunction ''propertyIsEnumerable''),
      (''toString'', JFunction ''toString''),
      (''valueOf'', JFunction ''valueOf''),
      (''__proto__'', JObjectPrototype),
      (''toLocaleString'', JFunction ''toLocaleString'')]"

definition getProperty :: "(string \<times> string) list \<Rightarrow> string \<Rightarrow> jsval option" where
  "getProperty literal k =
     (case map_of literal k of
        Some v \<Rightarrow> Some (JString v)
      | None \<Rightarrow> map_of objectPrototype k)"

text \<open>\<open>x || d\<close> where \<open>x\<close> is the result of a property read.\<close>

definition orDefault :: "jsval option \<Rightarrow> jsval \<Rightarrow> jsval" where
  "orDefault x d = (case x of None \<Rightarrow> d | Some v \<Rightarrow> if truthy v then v else d)"

subsection \<open>Dates\<close>

text \<open>
  A time value is a number of milliseconds since the epoch, or \<open>NaN\<close> (\<open>None\<close>, an invalid
  date). \<open>Date.parse\<close> is fixed by the language only for the ISO formats and is otherwise
  left to the host, so the functions below take it as the parameter \<open>parse\<close>.
  \<open>new Date(s)\<close> clips the parsed value to the range of valid dates, and
  \<open>toISOString\<close> throws a \<open>RangeError\<close> on an invalid date.
\<close>

datatype error = RangeError

type_synonym timeValue = "int option"

definition timeClip :: "timeValue \<Rightarrow> timeValue" where
  "timeClip t =
     (case t of
        None \<Rightarrow> None
      | Some ms \<Rightarrow> if \<bar>ms\<bar> > 8640000000000000 then None else Some ms)"

definition newDate :: "(string \<Rightarrow> timeValue) \<Rightarrow> string \<Rightarrow> timeValue" where
  "newDate parse s = timeClip (parse s)"

text \<open>A number printed in at least \<open>w\<close> digits, with leading zeros.\<close>

function padStart :: "nat \<Rightarrow> string \<Rightarrow> string" where
  "padStart w s = (if length s < w then padStart w (CHR ''0'' # s) else s)"
  by pat_completeness auto
termination
  by (relation "measure (\<lambda>(w, s). w - length s)") auto

definition pad :: "nat \<Rightarrow> nat \<Rightarrow> string" where
  "pad w n = padStart w (natToString n)"

text \<open>The civil date (year, month, day) of a day number counted from 1970-01-01.\<close>

definition civilFromDays :: "int \<Rightarrow> int \<times> nat \<times> nat" where
  "civilFromDays z0 =
     (let z = z0 + 719468;
          era = z div 146097;
          doe = z - era * 146097;
          yoe = (doe - doe div 1460 + doe div 36524 - doe div 146096) div 365;
          doy = doe - (365 * yoe + yoe div 4 - yoe div 100);
          mp = (5 * doy + 2) div 153;
          d = doy - (153 * mp + 2) div 5 + 1;
          m = (if mp < 10 then mp + 3 else mp - 9);
          y = yoe + era * 400 + (if m \<le> 2 then 1 else 0)
      in (y, nat m, nat d))"

definition yearString :: "int \<Rightarrow> string" where
  "yearString y =
     (if 0 \<le> y \<and> y \<le> 9999 then pad 4 (nat y)
      else (if y < 0 then CHR ''-'' else CHR ''+'') # pad 6 (nat \<bar>y\<bar>))"

definition isoFormat :: "int \<Rightarrow> string" where
  "isoFormat ms =
     (let (y, m, d) = civilFromDays (ms div 86400000);
          t = nat (ms mod 86400000)
      in yearString y @ ''-'' @ pad 2 m @ ''-'' @ pad 2 d @ ''T''
         @ pad 2 (t div 3600000) @ '':'' @ pad 2 (t div 60000 mod 60) @ '':''
         @ pad 2 (t div 1000 mod 60) @ ''.'' @ pad 3 (t mod 1000) @ ''Z'')"

definition toISOString :: "timeValue \<Rightarrow> error + string" where
  "toISOString t = (case t of None \<Rightarrow> Inl RangeError | Some ms \<Rightarrow> Inr (isoFormat ms))"

subsection \<open>The raw and the normalized task\<close>

text \<open>
  \<open>ILegacyTask\<close> (\<open>models/LegacyTask.ts\<close>): every field is optional, \<open>None\<close> is a field that is
  not there (\<open>undefined\<close>). \<open>status\<close> and \<open>priority\<close> are \<open>string | number\<close>, \<open>tags\<close> is
  \<open>string[] | string\<close>, the other fields read by the adapter are strings. \<open>raw_id\<close> is the
  document's \<open>_id\<close>, as the string that \<open>String\<close> makes of it. Fields the adapter never reads
  live in the extension part of the record.
\<close>

datatype strnum = Str string | Num int

datatype tagsValue = TagString string | TagArray "string list"

record ILegacyTask =
  raw_id :: "string option"
  title :: "string option"
  name :: "string option"
  task_name :: "string option"
  desc :: "string option"
  description :: "string option"
  status :: "strnum option"
  priority :: "strnum option"
  assignee :: "string option"
  owner :: "string option"
  member :: "string option"
  due :: "string option"
  due_date :: "string option"
  deadline :: "string option"
  tags :: "tagsValue option"

text \<open>
  \<open>NormalizedTask\<close> (\<open>types.ts\<close>). \<open>n_status\<close> and \<open>n_priority\<close> hold what the table lookups
  return; \<open>TaskStatus\<close> and \<open>TaskPriority\<close> are the values their declared types allow.
  \<open>n_dueDate\<close> is \<open>string | null\<close>.
\<close>

record NormalizedTask =
  n_id :: string
  n_title :: string
  n_description :: string
  n_status :: jsval
  n_priority :: jsval
  n_assignee :: string
  n_dueDate :: "string option"
  n_tags :: "string list"
  n_normalizedAt :: string

definition TaskStatus :: "jsval list" where
  "TaskStatus = [JString ''TODO'', JString ''IN_PROGRESS'', JString ''REVIEW'', JString ''DONE'']"

definition TaskPriority :: "jsval list" where
  "TaskPriority = [JString ''LOW'', JString ''MEDIUM'', JString ''HIGH'', JString ''CRITICAL'']"

subsection \<open>The operator \<open>||\<close> and \<open>try\<close>/\<open>catch\<close>\<close>

text \<open>
  A string is truthy when it is not empty, a number when it is not zero, \<open>undefined\<close> and
  \<open>null\<close> never. \<open>a || b\<close> is \<open>a\<close> when \<open>a\<close> is truthy and \<open>b\<close> otherwise.
\<close>

definition truthyString :: "string option \<Rightarrow> bool" where
  "truthyString x = (case x of None \<Rightarrow> False | Some s \<Rightarrow> s \<noteq> [])"

definition lor :: "string option \<Rightarrow> string option \<Rightarrow> string option" where
  "lor a b = (if truthyString a then a else b)"

text \<open>\<open>a || "literal"\<close>, whose value is always a string.\<close>

definition orString :: "string option \<Rightarrow> string \<Rightarrow> string" where
  "orString a d = (case a of None \<Rightarrow> d | Some s \<Rightarrow> if s \<noteq> [] then s else d)"

text \<open>\<open>a || null\<close>; \<open>None\<close> is both \<open>undefined\<close> and \<open>null\<close>.\<close>

definition orNull :: "string option \<Rightarrow> string option" where
  "orNull a = (if truthyString a then a else None)"

text \<open>\<open>x || ""\<close> for a \<open>string | number\<close> field.\<close>

definition orEmpty :: "strnum option \<Rightarrow> strnum" where
  "orEmpty x =
     (case x of
        None \<Rightarrow> Str []
      | Some (Str s) \<Rightarrow> if s \<noteq> [] then Str s else Str []
      | Some (Num n) \<Rightarrow> if n \<noteq> 0 then Num n else Str [])"

text \<open>\<open>String(x)\<close>.\<close>

fun toString :: "strnum \<Rightarrow> string" where
  "toString (Str s) = s"
| "toString (Num n) = numberToString n"

definition idString :: "string option \<Rightarrow> string" where
  "idString x = (case x of None \<Rightarrow> ''undefined'' | Some s \<Rightarrow> s)"

definition tryCatch :: "error + 'a \<Rightarrow> (error \<Rightarrow> error + 'a) \<Rightarrow> error + 'a" where
  "tryCatch body handler = (case body of Inl e \<Rightarrow> handler e | Inr v \<Rightarrow> Inr v)"

subsection \<open>The resolvers\<close>

definition resolveTitle :: "'a ILegacyTask_scheme \<Rightarrow> string" where
  "resolveTitle raw = orString (lor (lor (title raw) (name raw)) (task_name raw)) ''Untitled Task''"

definition resolveDescription :: "'a ILegacyTask_scheme \<Rightarrow> string" where
  "resolveDescription raw = orString (lor (desc raw) (description raw)) []"

definition statusMap :: "(string \<times> string) list" where
  "statusMap =
     [(''todo'', ''TODO''),
      (''backlog'', ''TODO''),
      (''0'', ''TODO''),
      (''open'', ''TODO''),
      (''in_progress'', ''IN_PROGRESS''),
      (''in progress'', ''IN_PROGRESS''),
      (''active'', ''IN_PROGRESS''),
      (''wip'', ''IN_PROGRESS''),
      (''1'', ''IN_PROGRESS''),
      (''doing'', ''IN_PROGRESS''),
      (''review'', ''REVIEW''),
      (''pending'', ''REVIEW''),
      (''2'', ''REVIEW''),
      (''in_review'', ''REVIEW''),
      (''done'', ''DONE''),
      (''completed'', ''DONE''),
      (''3'', ''DONE''),
      (''closed'', ''DONE''),
      (''finished'', ''DONE'')]"

text \<open>The constant \<open>s\<close> of \<open>resolveStatus\<close>: \<open>String(raw.status || "").toLowerCase().trim()\<close>.\<close>

definition statusKey :: "'a ILegacyTask_scheme \<Rightarrow> string" where
  "statusKey raw = trim (toLowerCase (toString (orEmpty (status raw))))"

definition resolveStatus :: "'a ILegacyTask_scheme \<Rightarrow> jsval" where
  "resolveStatus raw = orDefault (getProperty statusMap (statusKey raw)) (JString ''TODO'')"

definition priorityMap :: "(string \<times> string) list" where
  "priorityMap =
     [(''low'', ''LOW''),
      (''minor'', ''LOW''),
      (''1'', ''LOW''),
      (''medium'', ''MEDIUM''),
      (''mid'', ''MEDIUM''),
      (''normal'', ''MEDIUM''),
      (''2'', ''MEDIUM''),
      (''high'', ''HIGH''),
      (''major'', ''HIGH''),
      (''3'', ''HIGH''),
      (''critical'', ''CRITICAL''),
      (''blocker'', ''CRITICAL''),
      (''4'', ''CRITICAL''),
      (''urgent'', ''CRITICAL'')]"

text \<open>The constant \<open>p\<close> of \<open>resolvePriority\<close>.\<close>

definition priorityKey :: "'a ILegacyTask_scheme \<Rightarrow> string" where
  "priorityKey raw = trim (toLowerCase (toString (orEmpty (priority raw))))"

definition resolvePriority :: "'a ILegacyTask_scheme \<Rightarrow> jsval" where
  "resolvePriority raw = orDefault (getProperty priorityMap (priorityKey raw)) (JString ''MEDIUM'')"

definition resolveAssignee :: "'a ILegacyTask_scheme \<Rightarrow> string" where
  "resolveAssignee raw = orString (lor (lor (assignee raw) (owner raw)) (member raw)) ''Unassigned''"

text \<open>
  \<open>resolveDueDate\<close>: the \<open>RangeError\<close> that \<open>toISOString\<close> throws on an invalid date is caught,
  and the handler returns the raw string.
\<close>

definition resolveDueDate ::
    "(string \<Rightarrow> timeValue) \<Rightarrow> 'a ILegacyTask_scheme \<Rightarrow> error + string option" where
  "resolveDueDate parse raw =
     (let raw_date = orNull (lor (lor (due raw) (due_date raw)) (deadline raw))
      in case raw_date of
           None \<Rightarrow> Inr None
         | Some d \<Rightarrow>
             if d = [] then Inr None
             else tryCatch
                    (case toISOString (newDate parse d) of
                       Inl e \<Rightarrow> Inl e
                     | Inr str \<Rightarrow> Inr (Some str))
                    (\<lambda>e. Inr (Some d)))"

definition resolveTags :: "'a ILegacyTask_scheme \<Rightarrow> string list" where
  "resolveTags raw =
     (case tags raw of
        None \<Rightarrow> []
      | Some (TagString s) \<Rightarrow>
          if s = [] then []
          else filter (\<lambda>t. t \<noteq> []) (map trim (split CHR '','' s))
      | Some (TagArray xs) \<Rightarrow> xs)"

subsection \<open>\<open>normalizeTask\<close> and the middleware\<close>

text \<open>
  \<open>normalizeTask\<close> reads the clock once, for \<open>normalizedAt\<close>; \<open>now\<close> is that reading, a valid
  time value. An exception of a resolver or of \<open>toISOString\<close> would leave the function.
\<close>

definition normalizeTask ::
    "(string \<Rightarrow> timeValue) \<Rightarrow> int \<Rightarrow> 'a ILegacyTask_scheme \<Rightarrow> error + NormalizedTask" where
  "normalizeTask parse now raw =
     (case resolveDueDate parse raw of
        Inl e \<Rightarrow> Inl e
      | Inr dueDate \<Rightarrow>
          (case toISOString (Some now) of
             Inl e \<Rightarrow> Inl e
           | Inr stamp \<Rightarrow>
               Inr \<lparr> n_id = idString (raw_id raw),
                     n_title = resolveTitle raw,
                     n_description = resolveDescription raw,
                     n_status = resolveStatus raw,
                     n_priority = resolvePriority raw,
                     n_assignee = resolveAssignee raw,
                     n_dueDate = dueDate,
                     n_tags = resolveTags raw,
                     n_normalizedAt = stamp \<rparr>))"

text \<open>
  \<open>Array.prototype.map\<close> with a callback that may throw: the elements are visited in index
  order and the first exception ends the loop. The callback is given the index as well as
  the element; \<open>normalizeTask\<close> ignores it, the model uses it to name the clock reading.
\<close>

fun arrayMap :: "(nat \<Rightarrow> 'a \<Rightarrow> error + 'b) \<Rightarrow> nat \<Rightarrow> 'a list \<Rightarrow> error + 'b list" where
  "arrayMap f i [] = Inr []"
| "arrayMap f i (x # xs) =
     (case f i x of
        Inl e \<Rightarrow> Inl e
      | Inr y \<Rightarrow>
          (case arrayMap f (Suc i) xs of
             Inl e \<Rightarrow> Inl e
           | Inr ys \<Rightarrow> Inr (y # ys)))"

text \<open>
  The batch form (\<open>normalizeAll\<close> in the specification) is the expression
  \<open>rawTasks.map(normalizeTask)\<close>. Each call of \<open>normalizeTask\<close> reads the clock for itself;
  \<open>clock i\<close> is the reading of the call for the element of index \<open>i\<close>.
\<close>

definition normalizeAll ::
    "(string \<Rightarrow> timeValue) \<Rightarrow> (nat \<Rightarrow> int) \<Rightarrow> 'a ILegacyTask_scheme list
       \<Rightarrow> error + NormalizedTask list" where
  "normalizeAll parse clock raws = arrayMap (\<lambda>i raw. normalizeTask parse (clock i) raw) 0 raws"

text \<open>
  \<open>legacyAdapterMiddleware\<close> works on \<open>res.locals\<close> and ends with \<open>next()\<close> or \<open>next(err)\<close>.
  An array is truthy even when it is empty, so the test is whether \<open>rawTasks\<close> is there.
\<close>

record 'a locals =
  rawTasks :: "'a ILegacyTask_scheme list option"
  tasks :: "NormalizedTask list option"

datatype nextCall = Next | NextError error

definition legacyAdapterMiddleware ::
    "(string \<Rightarrow> timeValue) \<Rightarrow> (nat \<Rightarrow> int) \<Rightarrow> 'a locals \<Rightarrow> 'a locals \<times> nextCall" where
  "legacyAdapterMiddleware parse clock res =
     (case rawTasks res of
        None \<Rightarrow> (res, Next)
      | Some raws \<Rightarrow>
          (case normalizeAll parse clock raws of
             Inl err \<Rightarrow> (res, NextError err)
           | Inr ts \<Rightarrow> (res\<lparr>tasks := Some ts\<rparr>, Next)))"

subsection \<open>Notions of the specification and example inputs\<close>

text \<open>
  The first non-empty value among a list of aliases, in the order of the list: the selection
  rule of the specification for titles, descriptions, assignees and due dates.
\<close>

fun firstNonEmpty :: "string option list \<Rightarrow> string option" where
  "firstNonEmpty [] = None"
| "firstNonEmpty (None # xs) = firstNonEmpty xs"
| "firstNonEmpty (Some s # xs) = (if s \<noteq> [] then Some s else firstNonEmpty xs)"

text \<open>The status enumeration as the specification spells it.\<close>

definition specStatus :: "jsval list" where
  "specStatus = [JString ''BACKLOG'', JString ''IN_PROGRESS'', JString ''IN_REVIEW'', JString ''DONE'']"

text \<open>A result without its time stamp, to compare two runs.\<close>

definition unstamped :: "error + NormalizedTask \<Rightarrow> error + NormalizedTask" where
  "unstamped r = (case r of Inl e \<Rightarrow> Inl e | Inr t \<Rightarrow> Inr (t\<lparr>n_normalizedAt := []\<rparr>))"

text \<open>The document \<open>{}\<close>.\<close>

definition emptyTask :: ILegacyTask where
  "emptyTask =
     \<lparr> raw_id = None, title = None, name = None, task_name = None, desc = None,
       description = None, status = None, priority = None, assignee = None, owner = None,
       member = None, due = None, due_date = None, deadline = None, tags = None \<rparr>"

text \<open>
  A host parser for the examples. The language fixes \<open>Date.parse("2024-04-15")\<close>: a date-only
  form is midnight UTC, 1713139200000 ms after the epoch. The other strings of the examples
  (\<open>"not-a-date"\<close>, \<open>""\<close>) are no dates.
\<close>

definition parseExample :: "string \<Rightarrow> timeValue" where
  "parseExample s = (if s = ''2024-04-15'' then Some 1713139200000 else None)"

text \<open>A field of the result of a call; \<open>None\<close> when the call threw.\<close>

definition fieldOf :: "(NormalizedTask \<Rightarrow> 'a) \<Rightarrow> error + NormalizedTask \<Rightarrow> 'a option" where
  "fieldOf f r = (case r of Inl e \<Rightarrow> None | Inr t \<Rightarrow> Some (f t))"

section \<open>Properties\<close>

subsection \<open>Strings\<close>

lemma isWhiteSpace_toLowerChar: "isWhiteSpace (toLowerChar c) = isWhiteSpace c"
  unfolding isWhiteSpace_def toLowerChar_def isUpper_def Let_def
  by (auto simp: mod_if)

lemma not_isUpper_toLowerChar: "\<not> isUpper (toLowerChar c)"
  unfolding toLowerChar_def isUpper_def Let_def
  by (auto simp: mod_if)

lemma dropWhile_all: "\<forall>c\<in>set a. P c \<Longrightarrow> dropWhile P (a @ t) = dropWhile P t"
  by (induction a) auto

lemma dropWhile_hd: "xs \<noteq> [] \<Longrightarrow> \<not> P (hd xs) \<Longrightarrow> dropWhile P xs = xs"
  by (cases xs) auto

lemma last_dropWhile: "dropWhile P xs \<noteq> [] \<Longrightarrow> last (dropWhile P xs) = last xs"
  by (induction xs) (auto split: if_splits)

lemma set_trim: "set (trim s) \<subseteq> set s"
proof -
  have "set (trim s) \<subseteq> set (dropWhile isWhiteSpace s)"
    unfolding trim_def using set_dropWhileD by fastforce
  also have "\<dots> \<subseteq> set s" using set_dropWhileD by fastforce
  finally show ?thesis .
qed

text \<open>Trimming removes exactly the white space around a text that starts and ends without.\<close>

lemma trim_surround:
  assumes a: "\<forall>c\<in>set a. isWhiteSpace c" and b: "\<forall>c\<in>set b. isWhiteSpace c"
    and t: "t \<noteq> []" "\<not> isWhiteSpace (hd t)" "\<not> isWhiteSpace (last t)"
  shows "trim (a @ t @ b) = t"
proof -
  have "dropWhile isWhiteSpace (a @ t @ b) = dropWhile isWhiteSpace (t @ b)"
    using a by (rule dropWhile_all)
  also have "\<dots> = t @ b"
    using t by (intro dropWhile_hd) simp_all
  finally have 1: "dropWhile isWhiteSpace (a @ t @ b) = t @ b" .
  have "\<forall>c\<in>set (rev b). isWhiteSpace c" using b by simp
  then have 2: "dropWhile isWhiteSpace (rev b @ rev t) = dropWhile isWhiteSpace (rev t)"
    by (rule dropWhile_all)
  have 3: "dropWhile isWhiteSpace (rev t) = rev t"
    using t by (intro dropWhile_hd) (simp_all add: hd_rev)
  show ?thesis by (simp add: trim_def 1 2 3)
qed

text \<open>A trimmed string that is not empty starts and ends with a character that is no white space.\<close>

lemma trim_ends:
  assumes "trim s \<noteq> []"
  shows "\<not> isWhiteSpace (hd (trim s)) \<and> \<not> isWhiteSpace (last (trim s))"
proof -
  let ?d = "dropWhile isWhiteSpace s"
  let ?r = "dropWhile isWhiteSpace (rev ?d)"
  have r: "?r \<noteq> []" using assms by (simp add: trim_def)
  then have hr: "\<not> isWhiteSpace (hd ?r)" by (rule hd_dropWhile)
  have l: "last (trim s) = hd ?r" using r by (simp add: trim_def last_rev)
  have d: "?d \<noteq> []"
  proof
    assume e: "?d = []"
    have "?r = []" unfolding e by simp
    with r show False by (rule notE)
  qed
  then have hd_d: "\<not> isWhiteSpace (hd ?d)" by (rule hd_dropWhile)
  have "hd (trim s) = last ?r" using r by (simp add: trim_def hd_rev)
  also have "\<dots> = last (rev ?d)" using r by (rule last_dropWhile)
  also have "\<dots> = hd ?d" using d by (simp add: last_rev)
  finally have h: "hd (trim s) = hd ?d" .
  show ?thesis using h hd_d l hr by simp
qed

subsection \<open>Table lookups\<close>

text \<open>The key of a lookup has been lower-cased, so it holds no capital letter.\<close>

lemma key_lower: "\<forall>c\<in>set (trim (toLowerCase s)). \<not> isUpper c"
proof
  fix c assume "c \<in> set (trim (toLowerCase s))"
  then have "c \<in> set (toLowerCase s)" using set_trim by blast
  then show "\<not> isUpper c" by (auto simp: toLowerCase_def not_isUpper_toLowerChar)
qed

text \<open>Of the names that an object literal inherits, only two are written without a capital.\<close>

lemma inherited_lower:
  assumes "map_of objectPrototype k = Some v" and "\<forall>c\<in>set k. \<not> isUpper c"
  shows "k = ''constructor'' \<or> k = ''__proto__''"
  using assms by (auto simp: objectPrototype_def isUpper_def split: if_splits)

lemma statusMap_range: "map_of statusMap k = Some v \<Longrightarrow> JString v \<in> set TaskStatus"
  by (auto simp: statusMap_def TaskStatus_def split: if_splits)

lemma priorityMap_range: "map_of priorityMap k = Some v \<Longrightarrow> JString v \<in> set TaskPriority"
  by (auto simp: priorityMap_def TaskPriority_def split: if_splits)

lemma lookup_enum:
  assumes range: "\<And>v. map_of literal k = Some v \<Longrightarrow> JString v \<in> set enum"
    and d: "d \<in> set enum"
    and low: "\<forall>c\<in>set k. \<not> isUpper c"
    and k: "k \<noteq> ''constructor''" "k \<noteq> ''__proto__''"
  shows "orDefault (getProperty literal k) d \<in> set enum"
proof (cases "map_of literal k")
  case (Some v)
  then have "getProperty literal k = Some (JString v)" by (simp add: getProperty_def)
  then show ?thesis using range [OF Some] d by (simp add: orDefault_def)
next
  case None
  have "map_of objectPrototype k = None"
  proof (cases "map_of objectPrototype k")
    case (Some v)
    from inherited_lower [OF Some low] k show ?thesis by simp
  qed simp
  with None have "getProperty literal k = None" by (simp add: getProperty_def)
  then show ?thesis using d by (simp add: orDefault_def)
qed

lemma resolveStatus_enum:
  assumes "statusKey raw \<noteq> ''constructor''" "statusKey raw \<noteq> ''__proto__''"
  shows "resolveStatus raw \<in> set TaskStatus"
  unfolding resolveStatus_def
proof (rule lookup_enum)
  show "JString ''TODO'' \<in> set TaskStatus" by (simp add: TaskStatus_def)
  show "\<forall>c\<in>set (statusKey raw). \<not> isUpper c" unfolding statusKey_def by (rule key_lower)
qed (use assms statusMap_range in auto)

lemma resolvePriority_enum:
  assumes "priorityKey raw \<noteq> ''constructor''" "priorityKey raw \<noteq> ''__proto__''"
  shows "resolvePriority raw \<in> set TaskPriority"
  unfolding resolvePriority_def
proof (rule lookup_enum)
  show "JString ''MEDIUM'' \<in> set TaskPriority" by (simp add: TaskPriority_def)
  show "\<forall>c\<in>set (priorityKey raw). \<not> isUpper c" unfolding priorityKey_def by (rule key_lower)
qed (use assms priorityMap_range in auto)

subsection \<open>The result of \<open>normalizeTask\<close>\<close>

lemma toISOString_now: "toISOString (Some now) = Inr (isoFormat now)"
  by (simp add: toISOString_def)

lemma resolveDueDate_total: "\<exists>r. resolveDueDate parse raw = Inr r"
  by (simp add: resolveDueDate_def tryCatch_def Let_def split: option.split sum.split)

lemma normalizeTask_result:
  assumes "resolveDueDate parse raw = Inr dd"
  shows "normalizeTask parse now raw =
    Inr \<lparr> n_id = idString (raw_id raw), n_title = resolveTitle raw,
          n_description = resolveDescription raw, n_status = resolveStatus raw,
          n_priority = resolvePriority raw, n_assignee = resolveAssignee raw,
          n_dueDate = dd, n_tags = resolveTags raw, n_normalizedAt = isoFormat now \<rparr>"
  using assms by (simp add: normalizeTask_def toISOString_now)

lemma normalizeTask_fields:
  "\<exists>t. normalizeTask parse now raw = Inr t
     \<and> n_id t = idString (raw_id raw) \<and> n_title t = resolveTitle raw
     \<and> n_description t = resolveDescription raw \<and> n_status t = resolveStatus raw
     \<and> n_priority t = resolvePriority raw \<and> n_assignee t = resolveAssignee raw
     \<and> resolveDueDate parse raw = Inr (n_dueDate t) \<and> n_tags t = resolveTags raw
     \<and> n_normalizedAt t = isoFormat now"
proof -
  obtain dd where dd: "resolveDueDate parse raw = Inr dd"
    using resolveDueDate_total by blast
  show ?thesis unfolding normalizeTask_result [OF dd] using dd by simp
qed

lemma fieldOf_status: "fieldOf n_status (normalizeTask parse now raw) = Some (resolveStatus raw)"
  using normalizeTask_fields [of parse now raw] by (auto simp: fieldOf_def)

lemma fieldOf_priority: "fieldOf n_priority (normalizeTask parse now raw) = Some (resolvePriority raw)"
  using normalizeTask_fields [of parse now raw] by (auto simp: fieldOf_def)

lemma fieldOf_title: "fieldOf n_title (normalizeTask parse now raw) = Some (resolveTitle raw)"
  using normalizeTask_fields [of parse now raw] by (auto simp: fieldOf_def)

lemma fieldOf_tags: "fieldOf n_tags (normalizeTask parse now raw) = Some (resolveTags raw)"
  using normalizeTask_fields [of parse now raw] by (auto simp: fieldOf_def)

lemma fieldOf_dueDate:
  "resolveDueDate parse raw = Inr dd \<Longrightarrow> fieldOf n_dueDate (normalizeTask parse now raw) = Some dd"
  by (simp add: normalizeTask_result fieldOf_def)

section \<open>The claims\<close>

subsection \<open>C1: totality and the enumerated fields\<close>

text \<open>
  C1. For every raw task \<open>normalizeTask\<close> returns a record: it does not throw, whatever the
  host's date parser and the clock. The \<open>status\<close> of the record is one of \<open>TaskStatus\<close>, that is
  of \<open>TODO\<close>, \<open>IN_PROGRESS\<close>, \<open>REVIEW\<close>, \<open>DONE\<close>, whenever the lower-cased and trimmed status text
  is neither \<open>constructor\<close> nor \<open>__proto__\<close>, and the \<open>priority\<close> is one of \<open>TaskPriority\<close>, that
  is of \<open>LOW\<close>, \<open>MEDIUM\<close>, \<open>HIGH\<close>, \<open>CRITICAL\<close>, whenever the priority text is neither of the two.
\<close>

theorem normalizeTask_total_enum:
  "\<exists>t. normalizeTask parse now raw = Inr t
     \<and> (statusKey raw \<notin> {''constructor'', ''__proto__''} \<longrightarrow> n_status t \<in> set TaskStatus)
     \<and> (priorityKey raw \<notin> {''constructor'', ''__proto__''} \<longrightarrow> n_priority t \<in> set TaskPriority)"
  using normalizeTask_fields [of parse now raw] resolveStatus_enum [of raw]
    resolvePriority_enum [of raw]
  by auto

text \<open>The theorem at a task with status \<open>" Done "\<close> and the numeric priority 3.\<close>

theorem normalizeTask_total_enum_witness:
  "statusKey (emptyTask\<lparr>status := Some (Str '' Done ''), priority := Some (Num 3)\<rparr>)
      \<notin> {''constructor'', ''__proto__''}
   \<and> priorityKey (emptyTask\<lparr>status := Some (Str '' Done ''), priority := Some (Num 3)\<rparr>)
      \<notin> {''constructor'', ''__proto__''}
   \<and> (\<exists>t. normalizeTask parseExample 0
              (emptyTask\<lparr>status := Some (Str '' Done ''), priority := Some (Num 3)\<rparr>) = Inr t
          \<and> n_status t \<in> set TaskStatus \<and> n_priority t \<in> set TaskPriority)"
proof -
  let ?r = "emptyTask\<lparr>status := Some (Str '' Done ''), priority := Some (Num 3)\<rparr>"
  have s: "statusKey ?r = ''done''" by code_simp
  have p: "priorityKey ?r = ''3''" by code_simp
  show ?thesis
    using normalizeTask_total_enum [of parseExample 0 ?r] by (simp add: s p)
qed

text \<open>
  The claim as the specification states it fails twice. The status of the normalized empty
  document is \<open>TODO\<close>, which is not among \<open>BACKLOG\<close>, \<open>IN_PROGRESS\<close>, \<open>IN_REVIEW\<close>, \<open>DONE\<close>. And the
  status text \<open>constructor\<close> finds the property that \<open>statusMap\<close> inherits from
  \<open>Object.prototype\<close>: the status of the result is the function \<open>Object\<close>, a member of neither
  enumeration.
\<close>

theorem normalizeTask_enum_counterexample:
  "fieldOf n_status (normalizeTask parseExample 0 emptyTask) = Some (JString ''TODO'')
   \<and> JString ''TODO'' \<notin> set specStatus
   \<and> fieldOf n_status (normalizeTask parseExample 0 (emptyTask\<lparr>status := Some (Str ''constructor'')\<rparr>))
       = Some (JFunction ''Object'')
   \<and> JFunction ''Object'' \<notin> set specStatus
   \<and> JFunction ''Object'' \<notin> set TaskStatus"
proof -
  have 1: "resolveStatus emptyTask = JString ''TODO''" by code_simp
  have 2: "resolveStatus (emptyTask\<lparr>status := Some (Str ''constructor'')\<rparr>) = JFunction ''Object''"
    by code_simp
  show ?thesis by (simp add: fieldOf_status 1 2 specStatus_def TaskStatus_def)
qed

subsection \<open>C2: the synonyms of the review state\<close>

lemma toLowerCase_append: "toLowerCase (a @ b) = toLowerCase a @ toLowerCase b"
  by (simp add: toLowerCase_def)

lemma toLowerCase_whiteSpace:
  "\<forall>c\<in>set a. isWhiteSpace c \<Longrightarrow> \<forall>c\<in>set (toLowerCase a). isWhiteSpace c"
  by (auto simp: toLowerCase_def isWhiteSpace_toLowerChar)

text \<open>The lookup key of a text in any letter case with white space around it.\<close>

lemma key_surround:
  assumes a: "\<forall>c\<in>set a. isWhiteSpace c" and b: "\<forall>c\<in>set b. isWhiteSpace c"
    and w: "toLowerCase w \<noteq> []" "\<not> isWhiteSpace (hd (toLowerCase w))"
      "\<not> isWhiteSpace (last (toLowerCase w))"
  shows "trim (toLowerCase (toString (orEmpty (Some (Str (a @ w @ b)))))) = toLowerCase w"
proof -
  have "w \<noteq> []" using w(1) by (auto simp: toLowerCase_def)
  then have "orEmpty (Some (Str (a @ w @ b))) = Str (a @ w @ b)" by (simp add: orEmpty_def)
  then show ?thesis
    using trim_surround [OF toLowerCase_whiteSpace [OF a] toLowerCase_whiteSpace [OF b] w]
    by (simp add: toLowerCase_append)
qed

lemma review_keys:
  assumes "k \<in> {''2'', ''review'', ''pending''}"
  shows "k \<noteq> [] \<and> \<not> isWhiteSpace (hd k) \<and> \<not> isWhiteSpace (last k)
         \<and> orDefault (getProperty statusMap k) (JString ''TODO'') = JString ''REVIEW''"
  using assms by (auto simp: isWhiteSpace_def getProperty_def statusMap_def orDefault_def)

lemma numeric_two_key: "trim (toLowerCase (toString (orEmpty (Some (Num 2))))) = ''2''"
  by code_simp

text \<open>
  C2. Let the status of a raw task be a text \<open>w\<close> between two runs \<open>a\<close> and \<open>b\<close> of white space,
  where \<open>w\<close> is \<open>2\<close>, \<open>review\<close> or \<open>pending\<close> in any letter case. Then the status of the normalized
  task is \<open>REVIEW\<close>, whatever the other fields are. So is it for the number 2.
\<close>

theorem review_synonyms:
  assumes "\<forall>c\<in>set a. isWhiteSpace c" and "\<forall>c\<in>set b. isWhiteSpace c"
    and "toLowerCase w \<in> {''2'', ''review'', ''pending''}"
  shows "fieldOf n_status (normalizeTask parse now (raw\<lparr>status := Some (Str (a @ w @ b))\<rparr>))
           = Some (JString ''REVIEW'')
         \<and> fieldOf n_status (normalizeTask parse now (raw\<lparr>status := Some (Num 2)\<rparr>))
           = Some (JString ''REVIEW'')"
proof -
  let ?r = "raw\<lparr>status := Some (Str (a @ w @ b))\<rparr>"
  note k = review_keys [OF assms(3)]
  have "statusKey ?r = toLowerCase w"
    using key_surround [OF assms(1,2)] k by (simp add: statusKey_def)
  then have 1: "resolveStatus ?r = JString ''REVIEW''"
    using k by (simp add: resolveStatus_def)
  have "statusKey (raw\<lparr>status := Some (Num 2)\<rparr>) = ''2''"
    using numeric_two_key by (simp add: statusKey_def)
  then have 2: "resolveStatus (raw\<lparr>status := Some (Num 2)\<rparr>) = JString ''REVIEW''"
    using review_keys [of "''2''"] by (simp add: resolveStatus_def)
  show ?thesis using 1 2 by (simp add: fieldOf_status)
qed

text \<open>The theorem at the status \<open>"  PenDing"\<close> followed by a tab.\<close>

theorem review_synonyms_witness:
  "toLowerCase ''PenDing'' = ''pending''
   \<and> fieldOf n_status
        (normalizeTask parseExample 0
           (emptyTask\<lparr>status := Some (Str (''  '' @ ''PenDing'' @ [CHR 0x09]))\<rparr>))
      = Some (JString ''REVIEW'')"
proof -
  have 1: "\<forall>c\<in>set ''  ''. isWhiteSpace c" by (simp add: isWhiteSpace_def)
  have 2: "\<forall>c\<in>set [CHR 0x09]. isWhiteSpace c" by (simp add: isWhiteSpace_def)
  have 3: "toLowerCase ''PenDing'' = ''pending''" by code_simp
  show ?thesis
    using review_synonyms [of "''  ''" "[CHR 0x09]" "''PenDing''" parseExample 0 emptyTask] 1 2 3
    by simp
qed

text \<open>
  The canonical state is named \<open>REVIEW\<close> in the code; \<open>IN_REVIEW\<close>, the name of the claim, is
  not what the status \<open>"2"\<close> normalizes to.
\<close>

theorem review_name_counterexample:
  "fieldOf n_status (normalizeTask parseExample 0 (emptyTask\<lparr>status := Some (Str ''2'')\<rparr>))
     = Some (JString ''REVIEW'')
   \<and> JString ''REVIEW'' \<noteq> JString ''IN_REVIEW''"
proof -
  have "resolveStatus (emptyTask\<lparr>status := Some (Str ''2'')\<rparr>) = JString ''REVIEW''" by code_simp
  then show ?thesis by (simp add: fieldOf_status)
qed

subsection \<open>C3: the due date\<close>

text \<open>The chain of \<open>||\<close> selects the first alias that is there and not empty.\<close>

lemma chain_firstNonEmpty: "orNull (lor (lor a b) c) = firstNonEmpty [a, b, c]"
  by (cases a; cases b; cases c) (auto simp: orNull_def lor_def truthyString_def)

lemma firstNonEmpty_nonempty: "firstNonEmpty xs = Some d \<Longrightarrow> d \<noteq> []"
  by (induction xs rule: firstNonEmpty.induct) (auto split: if_splits)

lemma resolveDueDate_selected:
  "resolveDueDate parse raw =
     (case firstNonEmpty [due raw, due_date raw, deadline raw] of
        None \<Rightarrow> Inr None
      | Some d \<Rightarrow>
          (case newDate parse d of
             None \<Rightarrow> Inr (Some d)
           | Some ms \<Rightarrow> Inr (Some (isoFormat ms))))"
proof (cases "firstNonEmpty [due raw, due_date raw, deadline raw]")
  case None
  then show ?thesis
    by (simp add: resolveDueDate_def chain_firstNonEmpty)
next
  case (Some d)
  then have "d \<noteq> []" by (rule firstNonEmpty_nonempty)
  then show ?thesis using Some
    by (simp add: resolveDueDate_def chain_firstNonEmpty tryCatch_def toISOString_def
        split: option.split)
qed

text \<open>
  C3. For every raw task \<open>normalizeTask\<close> returns a record, and \<open>resolveDueDate\<close> returns its
  \<open>dueDate\<close> without throwing. Take the first of \<open>due\<close>, \<open>due_date\<close>, \<open>deadline\<close> that holds a
  non-empty string. If there is none (each alias is absent or empty), \<open>dueDate\<close> is \<open>null\<close>. If
  the string parses to a valid date, \<open>dueDate\<close> is the ISO-8601 form of that date. If it does
  not, \<open>dueDate\<close> is the string itself, unchanged.
\<close>

theorem dueDate_resolution:
  "\<exists>t. normalizeTask parse now raw = Inr t
     \<and> resolveDueDate parse raw = Inr (n_dueDate t)
     \<and> (firstNonEmpty [due raw, due_date raw, deadline raw] = None \<longrightarrow> n_dueDate t = None)
     \<and> (\<forall>d. firstNonEmpty [due raw, due_date raw, deadline raw] = Some d \<longrightarrow>
            (\<forall>ms. newDate parse d = Some ms \<longrightarrow> n_dueDate t = Some (isoFormat ms))
          \<and> (newDate parse d = None \<longrightarrow> n_dueDate t = Some d))"
proof -
  let ?sel = "firstNonEmpty [due raw, due_date raw, deadline raw]"
  obtain t where t: "normalizeTask parse now raw = Inr t"
    and d: "resolveDueDate parse raw = Inr (n_dueDate t)"
    using normalizeTask_fields [of parse now raw] by blast
  have n: "n_dueDate t = None" if "?sel = None"
    using that d by (simp add: resolveDueDate_selected)
  have v: "n_dueDate t = Some (isoFormat ms)" if "?sel = Some x" "newDate parse x = Some ms"
    for x ms
    using that d by (simp add: resolveDueDate_selected)
  have i: "n_dueDate t = Some x" if "?sel = Some x" "newDate parse x = None" for x
    using that d by (simp add: resolveDueDate_selected)
  show ?thesis
  proof (intro exI [of _ t] conjI allI impI)
    show "normalizeTask parse now raw = Inr t" by (rule t)
    show "resolveDueDate parse raw = Inr (n_dueDate t)" by (rule d)
    show "n_dueDate t = None" if "?sel = None" using that by (rule n)
    show "n_dueDate t = Some (isoFormat ms)" if "?sel = Some x" "newDate parse x = Some ms"
      for x ms using that by (rule v)
    show "n_dueDate t = Some x" if "?sel = Some x" "newDate parse x = None" for x
      using that by (rule i)
  qed
qed

text \<open>The date of the specification's example, and the example parser on the example strings.\<close>

lemma civil_example: "civilFromDays 19828 = (2024, 4, 15)"
  by code_simp

lemma isoFormat_example: "isoFormat 1713139200000 = ''2024-04-15T00:00:00.000Z''"
  by (simp add: isoFormat_def civil_example pad_def yearString_def digitChar_def)

lemma newDate_example:
  "newDate parseExample ''2024-04-15'' = Some 1713139200000
   \<and> newDate parseExample ''not-a-date'' = None \<and> newDate parseExample [] = None"
  by (simp add: newDate_def parseExample_def timeClip_def)

text \<open>
  The theorem at the examples of the specification: \<open>due_date: "2024-04-15"\<close> gives the ISO
  form of that date, \<open>due: "not-a-date"\<close> is passed through, and \<open>{}\<close> has no due date.
\<close>

theorem dueDate_resolution_witness:
  "fieldOf n_dueDate (normalizeTask parseExample 0 (emptyTask\<lparr>due_date := Some ''2024-04-15''\<rparr>))
     = Some (Some ''2024-04-15T00:00:00.000Z'')
   \<and> fieldOf n_dueDate (normalizeTask parseExample 0 (emptyTask\<lparr>due := Some ''not-a-date''\<rparr>))
     = Some (Some ''not-a-date'')
   \<and> fieldOf n_dueDate (normalizeTask parseExample 0 emptyTask) = Some None"
proof -
  let ?a = "emptyTask\<lparr>due_date := Some ''2024-04-15''\<rparr>"
  let ?b = "emptyTask\<lparr>due := Some ''not-a-date''\<rparr>"
  have a: "firstNonEmpty [due ?a, due_date ?a, deadline ?a] = Some ''2024-04-15''"
    by (simp add: emptyTask_def)
  have b: "firstNonEmpty [due ?b, due_date ?b, deadline ?b] = Some ''not-a-date''"
    by (simp add: emptyTask_def)
  have c: "firstNonEmpty [due emptyTask, due_date emptyTask, deadline emptyTask] = None"
    by (simp add: emptyTask_def)
  have 1: "fieldOf n_dueDate (normalizeTask parseExample 0 ?a) = Some (Some ''2024-04-15T00:00:00.000Z'')"
  proof -
    from dueDate_resolution [of parseExample 0 ?a] obtain t
      where t: "normalizeTask parseExample 0 ?a = Inr t"
        and h: "\<forall>d. firstNonEmpty [due ?a, due_date ?a, deadline ?a] = Some d \<longrightarrow>
            (\<forall>ms. newDate parseExample d = Some ms \<longrightarrow> n_dueDate t = Some (isoFormat ms))
          \<and> (newDate parseExample d = None \<longrightarrow> n_dueDate t = Some d)"
      by (elim exE conjE)
    note h1 = h [rule_format, OF a, THEN conjunct1, rule_format]
    have "n_dueDate t = Some (isoFormat 1713139200000)"
      by (rule h1) (simp add: newDate_example)
    then show ?thesis unfolding t by (simp add: fieldOf_def isoFormat_example)
  qed
  have 2: "fieldOf n_dueDate (normalizeTask parseExample 0 ?b) = Some (Some ''not-a-date'')"
  proof -
    from dueDate_resolution [of parseExample 0 ?b] obtain t
      where t: "normalizeTask parseExample 0 ?b = Inr t"
        and h: "\<forall>d. firstNonEmpty [due ?b, due_date ?b, deadline ?b] = Some d \<longrightarrow>
            (\<forall>ms. newDate parseExample d = Some ms \<longrightarrow> n_dueDate t = Some (isoFormat ms))
          \<and> (newDate parseExample d = None \<longrightarrow> n_dueDate t = Some d)"
      by (elim exE conjE)
    note h2 = h [rule_format, OF b, THEN conjunct2, rule_format]
    have "n_dueDate t = Some ''not-a-date''"
      by (rule h2) (simp add: newDate_example)
    then show ?thesis unfolding t by (simp add: fieldOf_def)
  qed
  have 3: "fieldOf n_dueDate (normalizeTask parseExample 0 emptyTask) = Some None"
  proof -
    from dueDate_resolution [of parseExample 0 emptyTask] obtain t
      where t: "normalizeTask parseExample 0 emptyTask = Inr t"
        and h: "firstNonEmpty [due emptyTask, due_date emptyTask, deadline emptyTask] = None
                  \<longrightarrow> n_dueDate t = None"
      by (elim exE conjE)
    have "n_dueDate t = None" by (rule h [rule_format, OF c])
    then show ?thesis unfolding t by (simp add: fieldOf_def)
  qed
  show ?thesis using 1 2 3 by (intro conjI)
qed

text \<open>
  An alias that holds the empty string holds a value that is no date, yet the result is
  \<open>null\<close> and not that value: \<open>||\<close> skips an empty string as it skips a missing field.
\<close>

theorem dueDate_empty_counterexample:
  "due (emptyTask\<lparr>due := Some []\<rparr>) = Some []
   \<and> newDate parseExample [] = None
   \<and> fieldOf n_dueDate (normalizeTask parseExample 0 (emptyTask\<lparr>due := Some []\<rparr>)) = Some None
   \<and> Some None \<noteq> Some (Some ([] :: string))"
proof -
  have "resolveDueDate parseExample (emptyTask\<lparr>due := Some []\<rparr>) = Inr None"
    by (simp add: resolveDueDate_selected emptyTask_def)
  then show ?thesis
    by (simp add: fieldOf_dueDate newDate_example)
qed

subsection \<open>C4: the shape of the tags\<close>

lemma trim_idem: "trim (trim s) = trim s"
proof (cases "trim s = []")
  case True
  show ?thesis unfolding True by (simp add: trim_def)
next
  case False
  from trim_ends [OF False] False
  have "trim ([] @ trim s @ []) = trim s" by (intro trim_surround) simp_all
  then show ?thesis by simp
qed

lemma resolveTags_string:
  "tags raw = Some (TagString s) \<Longrightarrow>
     resolveTags raw = filter (\<lambda>t. t \<noteq> []) (map trim (split CHR '','' s))"
  by (simp add: resolveTags_def trim_def)

lemma resolveTags_pieces:
  assumes "tags raw = Some (TagString s)" and "x \<in> set (resolveTags raw)"
  shows "x \<noteq> [] \<and> trim x = x \<and> \<not> isWhiteSpace (hd x) \<and> \<not> isWhiteSpace (last x)"
proof -
  from assms obtain y where x: "x = trim y" "x \<noteq> []"
    by (auto simp: resolveTags_string)
  then show ?thesis using trim_ends [of y] trim_idem [of y] by simp
qed

text \<open>
  C4. For every raw task \<open>normalizeTask\<close> returns a record whose \<open>tags\<close> are as follows. When the
  raw \<open>tags\<close> field is absent they are the empty sequence. When it is a string they are the
  pieces of the string between its commas, trimmed, in their order and without the empty
  ones: each tag is a non-empty string with no white space at either end. When it is an
  array they are that array, unchanged, whatever its elements are.
\<close>

theorem tags_shape:
  "\<exists>t. normalizeTask parse now raw = Inr t
     \<and> (tags raw = None \<longrightarrow> n_tags t = [])
     \<and> (\<forall>s. tags raw = Some (TagString s) \<longrightarrow>
            n_tags t = filter (\<lambda>x. x \<noteq> []) (map trim (split CHR '','' s))
          \<and> (\<forall>x\<in>set (n_tags t).
                x \<noteq> [] \<and> trim x = x \<and> \<not> isWhiteSpace (hd x) \<and> \<not> isWhiteSpace (last x)))
     \<and> (\<forall>xs. tags raw = Some (TagArray xs) \<longrightarrow> n_tags t = xs)"
proof -
  obtain t where t: "normalizeTask parse now raw = Inr t" and g: "n_tags t = resolveTags raw"
    using normalizeTask_fields [of parse now raw] by blast
  show ?thesis
  proof (intro exI [of _ t] conjI allI impI ballI)
    show "normalizeTask parse now raw = Inr t" by (rule t)
    show "n_tags t = []" if "tags raw = None"
      using that by (simp add: g resolveTags_def)
    show "n_tags t = filter (\<lambda>x. x \<noteq> []) (map trim (split CHR '','' s))"
      if "tags raw = Some (TagString s)" for s
      using that by (simp add: g resolveTags_string)
    show "x \<noteq> []" if "tags raw = Some (TagString s)" "x \<in> set (n_tags t)" for s x
      using resolveTags_pieces [of raw s x] that by (simp add: g)
    show "trim x = x" if "tags raw = Some (TagString s)" "x \<in> set (n_tags t)" for s x
      using resolveTags_pieces [of raw s x] that by (simp add: g)
    show "\<not> isWhiteSpace (hd x)" if "tags raw = Some (TagString s)" "x \<in> set (n_tags t)" for s x
      using resolveTags_pieces [of raw s x] that by (simp add: g)
    show "\<not> isWhiteSpace (last x)" if "tags raw = Some (TagString s)" "x \<in> set (n_tags t)" for s x
      using resolveTags_pieces [of raw s x] that by (simp add: g)
    show "n_tags t = xs" if "tags raw = Some (TagArray xs)" for xs
      using that by (simp add: g resolveTags_def)
  qed
qed

text \<open>The pieces of the specification's example string.\<close>

lemma pieces_example:
  "filter (\<lambda>x. x \<noteq> []) (map trim (split CHR '','' ''a, b ,c'')) = [''a'', ''b'', ''c'']"
  by code_simp

text \<open>The theorem at a string of tags, at an array of tags and at the empty document.\<close>

theorem tags_shape_witness:
  "fieldOf n_tags (normalizeTask parseExample 0 (emptyTask\<lparr>tags := Some (TagString ''a, b ,c'')\<rparr>))
     = Some [''a'', ''b'', ''c'']
   \<and> fieldOf n_tags (normalizeTask parseExample 0 (emptyTask\<lparr>tags := Some (TagArray [''p'', ''q''])\<rparr>))
     = Some [''p'', ''q'']
   \<and> fieldOf n_tags (normalizeTask parseExample 0 emptyTask) = Some []"
proof -
  let ?a = "emptyTask\<lparr>tags := Some (TagString ''a, b ,c'')\<rparr>"
  let ?b = "emptyTask\<lparr>tags := Some (TagArray [''p'', ''q''])\<rparr>"
  have b: "tags ?b = Some (TagArray [''p'', ''q''])" by simp
  have a: "tags ?a = Some (TagString ''a, b ,c'')" by simp
  have e: "tags emptyTask = None" by (simp add: emptyTask_def)
  have 1: "fieldOf n_tags (normalizeTask parseExample 0 ?a) = Some [''a'', ''b'', ''c'']"
  proof -
    from tags_shape [of parseExample 0 ?a] obtain t
      where t: "normalizeTask parseExample 0 ?a = Inr t"
        and h: "\<forall>s. tags ?a = Some (TagString s) \<longrightarrow>
            n_tags t = filter (\<lambda>x. x \<noteq> []) (map trim (split CHR '','' s))
          \<and> (\<forall>x\<in>set (n_tags t).
                x \<noteq> [] \<and> trim x = x \<and> \<not> isWhiteSpace (hd x) \<and> \<not> isWhiteSpace (last x))"
      by (elim exE conjE)
    note h1 = h [rule_format, OF a, THEN conjunct1]
    have "n_tags t = [''a'', ''b'', ''c'']" unfolding h1 by (rule pieces_example)
    then show ?thesis unfolding t by (simp add: fieldOf_def)
  qed
  have 2: "fieldOf n_tags (normalizeTask parseExample 0 emptyTask) = Some []"
  proof -
    from tags_shape [of parseExample 0 emptyTask] obtain t
      where t: "normalizeTask parseExample 0 emptyTask = Inr t"
        and h: "tags emptyTask = None \<longrightarrow> n_tags t = []"
      by (elim exE conjE)
    show ?thesis unfolding t by (simp add: fieldOf_def h [rule_format, OF e])
  qed
  have 3: "fieldOf n_tags (normalizeTask parseExample 0 ?b) = Some [''p'', ''q'']"
  proof -
    from tags_shape [of parseExample 0 ?b] obtain t
      where t: "normalizeTask parseExample 0 ?b = Inr t"
        and h: "\<forall>xs. tags ?b = Some (TagArray xs) \<longrightarrow> n_tags t = xs"
      by (elim exE conjE)
    show ?thesis unfolding t by (simp add: fieldOf_def h [rule_format, OF b])
  qed
  show ?thesis using 1 3 2 by (intro conjI)
qed

text \<open>
  \<open>resolveTags\<close> returns an array as it is: an empty element and an untrimmed element of the raw
  array are tags of the result.
\<close>

theorem tags_array_counterexample:
  "fieldOf n_tags (normalizeTask parseExample 0 (emptyTask\<lparr>tags := Some (TagArray [[], '' x ''])\<rparr>))
     = Some [[], '' x '']
   \<and> trim '' x '' \<noteq> '' x ''"
proof -
  have "trim '' x '' = ''x''" by code_simp
  then show ?thesis by (simp add: fieldOf_tags resolveTags_def)
qed

subsection \<open>C5: the empty document\<close>

lemma empty_key: "trim (toLowerCase (toString (orEmpty None))) = []"
  by (simp add: orEmpty_def toLowerCase_def trim_def)

lemma default_lookups:
  "orDefault (getProperty statusMap []) (JString ''TODO'') = JString ''TODO''
   \<and> orDefault (getProperty priorityMap []) (JString ''MEDIUM'') = JString ''MEDIUM''"
  by (simp add: orDefault_def getProperty_def statusMap_def priorityMap_def objectPrototype_def)

text \<open>
  C5. A raw task in which none of the fields that the adapter reads is there, whatever else
  it holds, normalizes to the record of the defaults: the title \<open>Untitled Task\<close>, the empty
  description, the status \<open>TODO\<close>, the priority \<open>MEDIUM\<close>, the assignee \<open>Unassigned\<close>, no due
  date and no tags. Its \<open>id\<close> is the string \<open>undefined\<close>, its time stamp the clock reading.
\<close>

theorem empty_record_defaults:
  "normalizeTask parse now
     \<lparr> raw_id = None, title = None, name = None, task_name = None, desc = None,
       description = None, status = None, priority = None, assignee = None, owner = None,
       member = None, due = None, due_date = None, deadline = None, tags = None, \<dots> = ext \<rparr>
   = Inr \<lparr> n_id = ''undefined'', n_title = ''Untitled Task'', n_description = [],
           n_status = JString ''TODO'', n_priority = JString ''MEDIUM'',
           n_assignee = ''Unassigned'', n_dueDate = None, n_tags = [],
           n_normalizedAt = isoFormat now \<rparr>"
proof -
  let ?r = "\<lparr> raw_id = None, title = None, name = None, task_name = None, desc = None,
       description = None, status = None, priority = None, assignee = None, owner = None,
       member = None, due = None, due_date = None, deadline = None, tags = None, \<dots> = ext \<rparr>"
  have d: "resolveDueDate parse ?r = Inr None"
    by (simp add: resolveDueDate_selected)
  have s: "resolveStatus ?r = JString ''TODO''"
    using empty_key default_lookups by (simp add: resolveStatus_def statusKey_def)
  have p: "resolvePriority ?r = JString ''MEDIUM''"
    using empty_key default_lookups by (simp add: resolvePriority_def priorityKey_def)
  have t: "resolveTitle ?r = ''Untitled Task''"
    by (simp add: resolveTitle_def lor_def truthyString_def orString_def)
  have e: "resolveDescription ?r = []"
    by (simp add: resolveDescription_def lor_def truthyString_def orString_def)
  have a: "resolveAssignee ?r = ''Unassigned''"
    by (simp add: resolveAssignee_def lor_def truthyString_def orString_def)
  have g: "resolveTags ?r = []" by (simp add: resolveTags_def)
  have i: "idString (raw_id ?r) = ''undefined''" by (simp add: idString_def)
  show ?thesis
    unfolding normalizeTask_result [OF d] s p t e a g i ..
qed

text \<open>The theorem at the document \<open>{}\<close>, normalized at the epoch.\<close>

theorem empty_record_defaults_witness:
  "normalizeTask parseExample 0 emptyTask
   = Inr \<lparr> n_id = ''undefined'', n_title = ''Untitled Task'', n_description = [],
           n_status = JString ''TODO'', n_priority = JString ''MEDIUM'',
           n_assignee = ''Unassigned'', n_dueDate = None, n_tags = [],
           n_normalizedAt = ''1970-01-01T00:00:00.000Z'' \<rparr>"
proof -
  have c: "civilFromDays 0 = (1970, 1, 1)" by code_simp
  have "isoFormat 0 = ''1970-01-01T00:00:00.000Z''"
    by (simp add: isoFormat_def c pad_def yearString_def digitChar_def)
  then show ?thesis
    using empty_record_defaults [of parseExample 0 "()"] by (simp add: emptyTask_def)
qed

text \<open>The default status is \<open>TODO\<close>; \<open>BACKLOG\<close>, the name of the claim, is another string.\<close>

theorem empty_record_status_counterexample:
  "fieldOf n_status (normalizeTask parseExample 0 emptyTask) = Some (JString ''TODO'')
   \<and> JString ''TODO'' \<noteq> JString ''BACKLOG''"
proof -
  have "resolveStatus emptyTask = JString ''TODO''" by code_simp
  then show ?thesis by (simp add: fieldOf_status)
qed

subsection \<open>C6: the title aliases\<close>

lemma title_chain:
  "orString (lor (lor a b) c) d = (case firstNonEmpty [a, b, c] of None \<Rightarrow> d | Some t \<Rightarrow> t)"
  by (cases a; cases b; cases c) (auto simp: orString_def lor_def truthyString_def)

text \<open>
  C6. \<open>resolveTitle\<close> returns the first non-empty value among \<open>title\<close>, \<open>name\<close>, \<open>task_name\<close>, in
  this order, and \<open>Untitled Task\<close> when there is none. In particular: with a non-empty
  \<open>title\<close> and a \<open>name\<close> it returns the \<open>title\<close>; with a non-empty \<open>task_name\<close> and neither \<open>title\<close>
  nor \<open>name\<close> it returns the \<open>task_name\<close>. The title of the normalized task is this value.
\<close>

theorem title_alias_priority:
  "resolveTitle raw =
     (case firstNonEmpty [title raw, name raw, task_name raw] of
        None \<Rightarrow> ''Untitled Task''
      | Some t \<Rightarrow> t)
   \<and> (\<forall>t n. title raw = Some t \<and> t \<noteq> [] \<and> name raw = Some n \<longrightarrow> resolveTitle raw = t)
   \<and> (\<forall>t. title raw = None \<and> name raw = None \<and> task_name raw = Some t \<and> t \<noteq> []
          \<longrightarrow> resolveTitle raw = t)
   \<and> (firstNonEmpty [title raw, name raw, task_name raw] = None
          \<longrightarrow> resolveTitle raw = ''Untitled Task'')
   \<and> fieldOf n_title (normalizeTask parse now raw) = Some (resolveTitle raw)"
proof (intro conjI allI impI)
  show 1: "resolveTitle raw =
     (case firstNonEmpty [title raw, name raw, task_name raw] of
        None \<Rightarrow> ''Untitled Task''
      | Some t \<Rightarrow> t)"
    unfolding resolveTitle_def by (rule title_chain)
  show "resolveTitle raw = t" if "title raw = Some t \<and> t \<noteq> [] \<and> name raw = Some n" for t n
    unfolding 1 using that by simp
  show "resolveTitle raw = t"
    if "title raw = None \<and> name raw = None \<and> task_name raw = Some t \<and> t \<noteq> []" for t
    unfolding 1 using that by simp
  show "resolveTitle raw = ''Untitled Task''"
    if "firstNonEmpty [title raw, name raw, task_name raw] = None"
    unfolding 1 using that by simp
  show "fieldOf n_title (normalizeTask parse now raw) = Some (resolveTitle raw)"
    by (rule fieldOf_title)
qed

text \<open>The theorem at the three cases of the claim.\<close>

theorem title_alias_priority_witness:
  "resolveTitle (emptyTask\<lparr>title := Some ''A'', name := Some ''B''\<rparr>) = ''A''
   \<and> resolveTitle (emptyTask\<lparr>task_name := Some ''C''\<rparr>) = ''C''
   \<and> resolveTitle emptyTask = ''Untitled Task''"
proof -
  let ?a = "emptyTask\<lparr>title := Some ''A'', name := Some ''B''\<rparr>"
  let ?c = "emptyTask\<lparr>task_name := Some ''C''\<rparr>"
  note a = title_alias_priority [of ?a parseExample 0, THEN conjunct2, THEN conjunct1, rule_format,
      of "''A''" "''B''"]
  note c = title_alias_priority [of ?c parseExample 0, THEN conjunct2, THEN conjunct2,
      THEN conjunct1, rule_format, of "''C''"]
  note e = title_alias_priority [of emptyTask parseExample 0, THEN conjunct2, THEN conjunct2,
      THEN conjunct2, THEN conjunct1, rule_format]
  have 1: "resolveTitle ?a = ''A''" by (rule a) simp
  have 2: "resolveTitle ?c = ''C''" by (rule c) (simp add: emptyTask_def)
  have 3: "resolveTitle emptyTask = ''Untitled Task''" by (rule e) (simp add: emptyTask_def)
  show ?thesis using 1 2 3 by (intro conjI)
qed

subsection \<open>C7: the coercion of tags\<close>

lemma resolveTags_update:
  "resolveTags (raw\<lparr>tags := Some (TagString s)\<rparr>)
     = filter (\<lambda>t. t \<noteq> []) (map trim (split CHR '','' s))
   \<and> resolveTags (raw\<lparr>tags := Some (TagArray xs)\<rparr>) = xs
   \<and> resolveTags (raw\<lparr>tags := None\<rparr>) = []"
  by (simp add: resolveTags_def trim_def)

text \<open>
  C7. Whatever the other fields of a raw task are: the tags string \<open>"a, b ,c"\<close> resolves to
  \<open>["a","b","c"]\<close>, and any tags string to its pieces between the commas, each trimmed, the
  empty ones dropped; the array \<open>["x","y"]\<close>, as any array, resolves to itself; an absent tags
  field resolves to \<open>[]\<close>. The tags of the normalized task are the resolved tags.
\<close>

theorem tags_coercion:
  "resolveTags (raw\<lparr>tags := Some (TagString ''a, b ,c'')\<rparr>) = [''a'', ''b'', ''c'']
   \<and> resolveTags (raw\<lparr>tags := Some (TagString s)\<rparr>)
       = filter (\<lambda>t. t \<noteq> []) (map trim (split CHR '','' s))
   \<and> resolveTags (raw\<lparr>tags := Some (TagArray [''x'', ''y''])\<rparr>) = [''x'', ''y'']
   \<and> resolveTags (raw\<lparr>tags := Some (TagArray xs)\<rparr>) = xs
   \<and> resolveTags (raw\<lparr>tags := None\<rparr>) = []
   \<and> fieldOf n_tags (normalizeTask parse now raw) = Some (resolveTags raw)"
proof (intro conjI)
  show "resolveTags (raw\<lparr>tags := Some (TagString ''a, b ,c'')\<rparr>) = [''a'', ''b'', ''c'']"
    unfolding resolveTags_update [THEN conjunct1] by (rule pieces_example)
  show "resolveTags (raw\<lparr>tags := Some (TagString s)\<rparr>)
       = filter (\<lambda>t. t \<noteq> []) (map trim (split CHR '','' s))"
    by (rule resolveTags_update [THEN conjunct1])
  show "resolveTags (raw\<lparr>tags := Some (TagArray [''x'', ''y''])\<rparr>) = [''x'', ''y'']"
    by (rule resolveTags_update [THEN conjunct2, THEN conjunct1])
  show "resolveTags (raw\<lparr>tags := Some (TagArray xs)\<rparr>) = xs"
    by (rule resolveTags_update [THEN conjunct2, THEN conjunct1])
  show "resolveTags (raw\<lparr>tags := None\<rparr>) = []"
    by (rule resolveTags_update [THEN conjunct2, THEN conjunct2])
  show "fieldOf n_tags (normalizeTask parse now raw) = Some (resolveTags raw)"
    by (rule fieldOf_tags)
qed

text \<open>The theorem at the empty document with the tags string of the example.\<close>

theorem tags_coercion_witness:
  "fieldOf n_tags (normalizeTask parseExample 0 (emptyTask\<lparr>tags := Some (TagString ''a, b ,c'')\<rparr>))
     = Some [''a'', ''b'', ''c'']"
  using tags_coercion [of emptyTask "[]" "[]" parseExample 0]
    tags_coercion [of "emptyTask\<lparr>tags := Some (TagString ''a, b ,c'')\<rparr>" "[]" "[]" parseExample 0]
  by simp

subsection \<open>C8: the batch form\<close>

text \<open>
  A loop over a callback that never throws returns an array of the same length, whose
  element of index \<open>i\<close> is the result of the call for the input of index \<open>i\<close>.
\<close>

lemma arrayMap_total:
  assumes "\<And>i x. \<exists>y. f i x = Inr y"
  shows "\<exists>ys. arrayMap f k xs = Inr ys \<and> length ys = length xs
           \<and> (\<forall>i<length xs. f (k + i) (xs ! i) = Inr (ys ! i))"
proof (induction xs arbitrary: k)
  case Nil
  show ?case by simp
next
  case (Cons x xs)
  obtain y where y: "f k x = Inr y" using assms by blast
  obtain ys where ys: "arrayMap f (Suc k) xs = Inr ys" "length ys = length xs"
    and nth: "\<forall>i<length xs. f (Suc k + i) (xs ! i) = Inr (ys ! i)"
    using Cons.IH [of "Suc k"] by blast
  have "f (k + i) ((x # xs) ! i) = Inr ((y # ys) ! i)" if "i < length (x # xs)" for i
  proof (cases i)
    case 0
    then show ?thesis using y by simp
  next
    case (Suc j)
    then show ?thesis using nth that by simp
  qed
  then show ?case using y ys by simp
qed

text \<open>
  C8. For every sequence of raw tasks the batch form returns a sequence of normalized tasks
  of the same length, and its element of index \<open>i\<close> is the normalization of the raw task of
  index \<open>i\<close>, stamped with the clock reading of that call. The middleware stores this sequence
  in \<open>res.locals.tasks\<close> and calls \<open>next()\<close>.
\<close>

theorem normalizeAll_order:
  "\<exists>ts. normalizeAll parse clock raws = Inr ts
     \<and> length ts = length raws
     \<and> (\<forall>i<length raws. normalizeTask parse (clock i) (raws ! i) = Inr (ts ! i))
     \<and> (rawTasks res = Some raws \<longrightarrow>
          legacyAdapterMiddleware parse clock res = (res\<lparr>tasks := Some ts\<rparr>, Next))"
proof -
  have "\<exists>y. normalizeTask parse (clock i) x = Inr y" for i and x :: "'a ILegacyTask_scheme"
    using normalizeTask_fields [of parse "clock i" x] by blast
  from arrayMap_total [of "\<lambda>i raw. normalizeTask parse (clock i) raw" 0 raws, OF this]
  obtain ts where ts: "normalizeAll parse clock raws = Inr ts" "length ts = length raws"
    and nth: "\<forall>i<length raws. normalizeTask parse (clock i) (raws ! i) = Inr (ts ! i)"
    unfolding normalizeAll_def by auto
  have "legacyAdapterMiddleware parse clock res = (res\<lparr>tasks := Some ts\<rparr>, Next)"
    if "rawTasks res = Some raws"
    using that ts by (simp add: legacyAdapterMiddleware_def)
  with ts nth show ?thesis by blast
qed

text \<open>The theorem at three documents, the clock reading \<open>i\<close> at the call of index \<open>i\<close>.\<close>

theorem normalizeAll_order_witness:
  "\<exists>ts. normalizeAll parseExample of_nat
          [emptyTask, emptyTask\<lparr>title := Some ''b''\<rparr>, emptyTask\<lparr>name := Some ''c''\<rparr>] = Inr ts
     \<and> length ts = 3
     \<and> n_title (ts ! 0) = ''Untitled Task'' \<and> n_title (ts ! 1) = ''b'' \<and> n_title (ts ! 2) = ''c''
     \<and> legacyAdapterMiddleware parseExample of_nat
          \<lparr>rawTasks = Some [emptyTask, emptyTask\<lparr>title := Some ''b''\<rparr>,
                             emptyTask\<lparr>name := Some ''c''\<rparr>],
           tasks = None\<rparr>
        = (\<lparr>rawTasks = Some [emptyTask, emptyTask\<lparr>title := Some ''b''\<rparr>,
                              emptyTask\<lparr>name := Some ''c''\<rparr>],
            tasks = Some ts\<rparr>, Next)"
proof -
  let ?raws = "[emptyTask, emptyTask\<lparr>title := Some ''b''\<rparr>, emptyTask\<lparr>name := Some ''c''\<rparr>]"
  let ?res = "\<lparr>rawTasks = Some ?raws, tasks = None\<rparr>"
  from normalizeAll_order [of parseExample of_nat ?raws ?res] obtain ts
    where ts: "normalizeAll parseExample of_nat ?raws = Inr ts"
      and len: "length ts = length ?raws"
      and nth: "\<forall>i<length ?raws. normalizeTask parseExample (of_nat i) (?raws ! i) = Inr (ts ! i)"
      and mw: "rawTasks ?res = Some ?raws \<longrightarrow>
          legacyAdapterMiddleware parseExample of_nat ?res = (?res\<lparr>tasks := Some ts\<rparr>, Next)"
    by (elim exE conjE)
  have title: "n_title (ts ! i) = resolveTitle (?raws ! i)" if "i < 3" for i
  proof -
    have "normalizeTask parseExample (of_nat i) (?raws ! i) = Inr (ts ! i)"
      using nth that by simp
    then show ?thesis
      using fieldOf_title [of parseExample "of_nat i" "?raws ! i"] by (simp add: fieldOf_def)
  qed
  have t0: "resolveTitle emptyTask = ''Untitled Task''" by code_simp
  have t1: "resolveTitle (emptyTask\<lparr>title := Some ''b''\<rparr>) = ''b''" by code_simp
  have t2: "resolveTitle (emptyTask\<lparr>name := Some ''c''\<rparr>) = ''c''" by code_simp
  have 0: "n_title (ts ! 0) = ''Untitled Task''" using title [of 0] t0 by simp
  have 1: "n_title (ts ! 1) = ''b''" using title [of 1] t1 by simp
  have 2: "n_title (ts ! 2) = ''c''" using title [of 2] t2 by simp
  have m: "legacyAdapterMiddleware parseExample of_nat ?res = (?res\<lparr>tasks := Some ts\<rparr>, Next)"
    by (rule mw [rule_format]) simp
  show ?thesis
    using ts len 0 1 2 m by (intro exI [of _ ts]) simp
qed

subsection \<open>C9: two runs on the same raw task\<close>

text \<open>
  C9. Two runs of \<open>normalizeTask\<close> on the same raw task, at the clock readings \<open>now1\<close> and
  \<open>now2\<close>, both return a record, and the two records agree on \<open>id\<close>, \<open>title\<close>, \<open>description\<close>,
  \<open>status\<close>, \<open>priority\<close>, \<open>assignee\<close>, \<open>dueDate\<close> and \<open>tags\<close>; \<open>normalizedAt\<close> is the ISO form of the
  clock reading of each run. The raw task is an argument that the function only reads, and
  the middleware leaves \<open>res.locals.rawTasks\<close> as it was.
\<close>

theorem deterministic_except_stamp:
  "\<exists>t1 t2. normalizeTask parse now1 raw = Inr t1 \<and> normalizeTask parse now2 raw = Inr t2
     \<and> n_id t1 = n_id t2 \<and> n_title t1 = n_title t2 \<and> n_description t1 = n_description t2
     \<and> n_status t1 = n_status t2 \<and> n_priority t1 = n_priority t2
     \<and> n_assignee t1 = n_assignee t2 \<and> n_dueDate t1 = n_dueDate t2 \<and> n_tags t1 = n_tags t2
     \<and> n_normalizedAt t1 = isoFormat now1 \<and> n_normalizedAt t2 = isoFormat now2
     \<and> rawTasks (fst (legacyAdapterMiddleware parse clock res)) = rawTasks res"
proof -
  obtain dd where dd: "resolveDueDate parse raw = Inr dd"
    using resolveDueDate_total by blast
  have "rawTasks (fst (legacyAdapterMiddleware parse clock res)) = rawTasks res"
    by (simp add: legacyAdapterMiddleware_def split: option.split sum.split)
  then show ?thesis
    unfolding normalizeTask_result [OF dd] by simp
qed

text \<open>The theorem at a document with the numeric status 1, normalized at two times.\<close>

theorem deterministic_except_stamp_witness:
  "unstamped (normalizeTask parseExample 0 (emptyTask\<lparr>status := Some (Num 1)\<rparr>))
     = unstamped (normalizeTask parseExample 1713139200000 (emptyTask\<lparr>status := Some (Num 1)\<rparr>))"
proof -
  let ?r = "emptyTask\<lparr>status := Some (Num 1)\<rparr>"
  from deterministic_except_stamp [of parseExample 0 ?r 1713139200000 of_nat "\<lparr>rawTasks = None, tasks = None\<rparr>"]
  obtain t1 t2 where "normalizeTask parseExample 0 ?r = Inr t1"
    "normalizeTask parseExample 1713139200000 ?r = Inr t2"
    "n_id t1 = n_id t2" "n_title t1 = n_title t2" "n_description t1 = n_description t2"
    "n_status t1 = n_status t2" "n_priority t1 = n_priority t2"
    "n_assignee t1 = n_assignee t2" "n_dueDate t1 = n_dueDate t2" "n_tags t1 = n_tags t2"
    by (elim exE conjE)
  then show ?thesis by (simp add: unstamped_def)
qed

subsection \<open>C10: an empty string is an absent field\<close>

lemmas resolver_defs =
  resolveTitle_def resolveDescription_def resolveStatus_def statusKey_def resolvePriority_def
  priorityKey_def resolveAssignee_def resolveDueDate_def resolveTags_def
  lor_def truthyString_def orEmpty_def orString_def orNull_def

text \<open>
  Two raw tasks on which all resolvers agree both normalize to a record, and the two records
  are the same up to the stamp.
\<close>

lemma normalize_cong:
  assumes "raw_id a = raw_id b" "resolveTitle a = resolveTitle b"
    "resolveDescription a = resolveDescription b" "resolveStatus a = resolveStatus b"
    "resolvePriority a = resolvePriority b" "resolveAssignee a = resolveAssignee b"
    "resolveDueDate parse a = resolveDueDate parse b" "resolveTags a = resolveTags b"
  shows "\<exists>t1 t2. normalizeTask parse now1 a = Inr t1 \<and> normalizeTask parse now2 b = Inr t2
           \<and> t1\<lparr>n_normalizedAt := []\<rparr> = t2\<lparr>n_normalizedAt := []\<rparr>"
proof -
  obtain dd where dd: "resolveDueDate parse a = Inr dd"
    using resolveDueDate_total by blast
  then have dd': "resolveDueDate parse b = Inr dd" using assms(7) by simp
  show ?thesis
    unfolding normalizeTask_result [OF dd] normalizeTask_result [OF dd']
    using assms by simp
qed

lemma empty_title:
  "\<exists>t1 t2. normalizeTask parse now1 (raw\<lparr>title := Some []\<rparr>) = Inr t1
     \<and> normalizeTask parse now2 (raw\<lparr>title := None\<rparr>) = Inr t2
     \<and> t1\<lparr>n_normalizedAt := []\<rparr> = t2\<lparr>n_normalizedAt := []\<rparr>"
  by (rule normalize_cong) (simp_all add: resolver_defs)

lemma empty_name:
  "\<exists>t1 t2. normalizeTask parse now1 (raw\<lparr>name := Some []\<rparr>) = Inr t1
     \<and> normalizeTask parse now2 (raw\<lparr>name := None\<rparr>) = Inr t2
     \<and> t1\<lparr>n_normalizedAt := []\<rparr> = t2\<lparr>n_normalizedAt := []\<rparr>"
  by (rule normalize_cong) (simp_all add: resolver_defs)

lemma empty_task_name:
  "\<exists>t1 t2. normalizeTask parse now1 (raw\<lparr>task_name := Some []\<rparr>) = Inr t1
     \<and> normalizeTask parse now2 (raw\<lparr>task_name := None\<rparr>) = Inr t2
     \<and> t1\<lparr>n_normalizedAt := []\<rparr> = t2\<lparr>n_normalizedAt := []\<rparr>"
  by (rule normalize_cong) (simp_all add: resolver_defs)

lemma empty_desc:
  "\<exists>t1 t2. normalizeTask parse now1 (raw\<lparr>desc := Some []\<rparr>) = Inr t1
     \<and> normalizeTask parse now2 (raw\<lparr>desc := None\<rparr>) = Inr t2
     \<and> t1\<lparr>n_normalizedAt := []\<rparr> = t2\<lparr>n_normalizedAt := []\<rparr>"
  by (rule normalize_cong) (simp_all add: resolver_defs)

lemma empty_description:
  "\<exists>t1 t2. normalizeTask parse now1 (raw\<lparr>description := Some []\<rparr>) = Inr t1
     \<and> normalizeTask parse now2 (raw\<lparr>description := None\<rparr>) = Inr t2
     \<and> t1\<lparr>n_normalizedAt := []\<rparr> = t2\<lparr>n_normalizedAt := []\<rparr>"
  by (rule normalize_cong) (simp_all add: resolver_defs)

lemma empty_assignee:
  "\<exists>t1 t2. normalizeTask parse now1 (raw\<lparr>assignee := Some []\<rparr>) = Inr t1
     \<and> normalizeTask parse now2 (raw\<lparr>assignee := None\<rparr>) = Inr t2
     \<and> t1\<lparr>n_normalizedAt := []\<rparr> = t2\<lparr>n_normalizedAt := []\<rparr>"
  by (rule normalize_cong) (simp_all add: resolver_defs)

lemma empty_owner:
  "\<exists>t1 t2. normalizeTask parse now1 (raw\<lparr>owner := Some []\<rparr>) = Inr t1
     \<and> normalizeTask parse now2 (raw\<lparr>owner := None\<rparr>) = Inr t2
     \<and> t1\<lparr>n_normalizedAt := []\<rparr> = t2\<lparr>n_normalizedAt := []\<rparr>"
  by (rule normalize_cong) (simp_all add: resolver_defs)

lemma empty_member:
  "\<exists>t1 t2. normalizeTask parse now1 (raw\<lparr>member := Some []\<rparr>) = Inr t1
     \<and> normalizeTask parse now2 (raw\<lparr>member := None\<rparr>) = Inr t2
     \<and> t1\<lparr>n_normalizedAt := []\<rparr> = t2\<lparr>n_normalizedAt := []\<rparr>"
  by (rule normalize_cong) (simp_all add: resolver_defs)

lemma empty_due:
  "\<exists>t1 t2. normalizeTask parse now1 (raw\<lparr>due := Some []\<rparr>) = Inr t1
     \<and> normalizeTask parse now2 (raw\<lparr>due := None\<rparr>) = Inr t2
     \<and> t1\<lparr>n_normalizedAt := []\<rparr> = t2\<lparr>n_normalizedAt := []\<rparr>"
  by (rule normalize_cong) (simp_all add: resolver_defs)

lemma empty_due_date:
  "\<exists>t1 t2. normalizeTask parse now1 (raw\<lparr>due_date := Some []\<rparr>) = Inr t1
     \<and> normalizeTask parse now2 (raw\<lparr>due_date := None\<rparr>) = Inr t2
     \<and> t1\<lparr>n_normalizedAt := []\<rparr> = t2\<lparr>n_normalizedAt := []\<rparr>"
  by (rule normalize_cong) (simp_all add: resolver_defs)

lemma empty_deadline:
  "\<exists>t1 t2. normalizeTask parse now1 (raw\<lparr>deadline := Some []\<rparr>) = Inr t1
     \<and> normalizeTask parse now2 (raw\<lparr>deadline := None\<rparr>) = Inr t2
     \<and> t1\<lparr>n_normalizedAt := []\<rparr> = t2\<lparr>n_normalizedAt := []\<rparr>"
  by (rule normalize_cong) (simp_all add: resolver_defs)

lemma empty_tags:
  "\<exists>t1 t2. normalizeTask parse now1 (raw\<lparr>tags := Some (TagString [])\<rparr>) = Inr t1
     \<and> normalizeTask parse now2 (raw\<lparr>tags := None\<rparr>) = Inr t2
     \<and> t1\<lparr>n_normalizedAt := []\<rparr> = t2\<lparr>n_normalizedAt := []\<rparr>"
  by (rule normalize_cong) (simp_all add: resolver_defs)

lemma empty_status:
  "\<exists>t1 t2. normalizeTask parse now1 (raw\<lparr>status := Some (Str [])\<rparr>) = Inr t1
     \<and> normalizeTask parse now2 (raw\<lparr>status := None\<rparr>) = Inr t2
     \<and> t1\<lparr>n_normalizedAt := []\<rparr> = t2\<lparr>n_normalizedAt := []\<rparr>"
  by (rule normalize_cong) (simp_all add: resolver_defs)

lemma empty_priority:
  "\<exists>t1 t2. normalizeTask parse now1 (raw\<lparr>priority := Some (Str [])\<rparr>) = Inr t1
     \<and> normalizeTask parse now2 (raw\<lparr>priority := None\<rparr>) = Inr t2
     \<and> t1\<lparr>n_normalizedAt := []\<rparr> = t2\<lparr>n_normalizedAt := []\<rparr>"
  by (rule normalize_cong) (simp_all add: resolver_defs)

text \<open>
  C10. For every raw task and each of the fields \<open>title\<close>, \<open>name\<close>, \<open>task_name\<close>, \<open>desc\<close>,
  \<open>description\<close>, \<open>assignee\<close>, \<open>owner\<close>, \<open>member\<close>, \<open>due\<close>, \<open>due_date\<close>, \<open>deadline\<close>, \<open>tags\<close>, \<open>status\<close>
  and \<open>priority\<close>: the task with the field set to the empty string and the task with the
  field removed both normalize to a record, and the two records are equal up to
  \<open>normalizedAt\<close>.
\<close>

theorem empty_string_as_absent:
  "(\<exists>t1 t2. normalizeTask parse now1 (raw\<lparr>title := Some []\<rparr>) = Inr t1
      \<and> normalizeTask parse now2 (raw\<lparr>title := None\<rparr>) = Inr t2
      \<and> t1\<lparr>n_normalizedAt := []\<rparr> = t2\<lparr>n_normalizedAt := []\<rparr>)
   \<and> (\<exists>t1 t2. normalizeTask parse now1 (raw\<lparr>name := Some []\<rparr>) = Inr t1
      \<and> normalizeTask parse now2 (raw\<lparr>name := None\<rparr>) = Inr t2
      \<and> t1\<lparr>n_normalizedAt := []\<rparr> = t2\<lparr>n_normalizedAt := []\<rparr>)
   \<and> (\<exists>t1 t2. normalizeTask parse now1 (raw\<lparr>task_name := Some []\<rparr>) = Inr t1
      \<and> normalizeTask parse now2 (raw\<lparr>task_name := None\<rparr>) = Inr t2
      \<and> t1\<lparr>n_normalizedAt := []\<rparr> = t2\<lparr>n_normalizedAt := []\<rparr>)
   \<and> (\<exists>t1 t2. normalizeTask parse now1 (raw\<lparr>desc := Some []\<rparr>) = Inr t1
      \<and> normalizeTask parse now2 (raw\<lparr>desc := None\<rparr>) = Inr t2
      \<and> t1\<lparr>n_normalizedAt := []\<rparr> = t2\<lparr>n_normalizedAt := []\<rparr>)
   \<and> (\<exists>t1 t2. normalizeTask parse now1 (raw\<lparr>description := Some []\<rparr>) = Inr t1
      \<and> normalizeTask parse now2 (raw\<lparr>description := None\<rparr>) = Inr t2
      \<and> t1\<lparr>n_normalizedAt := []\<rparr> = t2\<lparr>n_normalizedAt := []\<rparr>)
   \<and> (\<exists>t1 t2. normalizeTask parse now1 (raw\<lparr>assignee := Some []\<rparr>) = Inr t1
      \<and> normalizeTask parse now2 (raw\<lparr>assignee := None\<rparr>) = Inr t2
      \<and> t1\<lparr>n_normalizedAt := []\<rparr> = t2\<lparr>n_normalizedAt := []\<rparr>)
   \<and> (\<exists>t1 t2. normalizeTask parse now1 (raw\<lparr>owner := Some []\<rparr>) = Inr t1
      \<and> normalizeTask parse now2 (raw\<lparr>owner := None\<rparr>) = Inr t2
      \<and> t1\<lparr>n_normalizedAt := []\<rparr> = t2\<lparr>n_normalizedAt := []\<rparr>)
   \<and> (\<exists>t1 t2. normalizeTask parse now1 (raw\<lparr>member := Some []\<rparr>) = Inr t1
      \<and> normalizeTask parse now2 (raw\<lparr>member := None\<rparr>) = Inr t2
      \<and> t1\<lparr>n_normalizedAt := []\<rparr> = t2\<lparr>n_normalizedAt := []\<rparr>)
   \<and> (\<exists>t1 t2. normalizeTask parse now1 (raw\<lparr>due := Some []\<rparr>) = Inr t1
      \<and> normalizeTask parse now2 (raw\<lparr>due := None\<rparr>) = Inr t2
      \<and> t1\<lparr>n_normalizedAt := []\<rparr> = t2\<lparr>n_normalizedAt := []\<rparr>)
   \<and> (\<exists>t1 t2. normalizeTask parse now1 (raw\<lparr>due_date := Some []\<rparr>) = Inr t1
      \<and> normalizeTask parse now2 (raw\<lparr>due_date := None\<rparr>) = Inr t2
      \<and> t1\<lparr>n_normalizedAt := []\<rparr> = t2\<lparr>n_normalizedAt := []\<rparr>)
   \<and> (\<exists>t1 t2. normalizeTask parse now1 (raw\<lparr>deadline := Some []\<rparr>) = Inr t1
      \<and> normalizeTask parse now2 (raw\<lparr>deadline := None\<rparr>) = Inr t2
      \<and> t1\<lparr>n_normalizedAt := []\<rparr> = t2\<lparr>n_normalizedAt := []\<rparr>)
   \<and> (\<exists>t1 t2. normalizeTask parse now1 (raw\<lparr>tags := Some (TagString [])\<rparr>) = Inr t1
      \<and> normalizeTask parse now2 (raw\<lparr>tags := None\<rparr>) = Inr t2
      \<and> t1\<lparr>n_normalizedAt := []\<rparr> = t2\<lparr>n_normalizedAt := []\<rparr>)
   \<and> (\<exists>t1 t2. normalizeTask parse now1 (raw\<lparr>status := Some (Str [])\<rparr>) = Inr t1
      \<and> normalizeTask parse now2 (raw\<lparr>status := None\<rparr>) = Inr t2
      \<and> t1\<lparr>n_normalizedAt := []\<rparr> = t2\<lparr>n_normalizedAt := []\<rparr>)
   \<and> (\<exists>t1 t2. normalizeTask parse now1 (raw\<lparr>priority := Some (Str [])\<rparr>) = Inr t1
      \<and> normalizeTask parse now2 (raw\<lparr>priority := None\<rparr>) = Inr t2
      \<and> t1\<lparr>n_normalizedAt := []\<rparr> = t2\<lparr>n_normalizedAt := []\<rparr>)"
  by (intro conjI empty_title empty_name empty_task_name empty_desc empty_description
      empty_assignee empty_owner empty_member empty_due empty_due_date empty_deadline
      empty_tags empty_status empty_priority)

text \<open>The theorem at a document with a name and a due date, for the fields \<open>title\<close> and \<open>due\<close>.\<close>

theorem empty_string_as_absent_witness:
  "(\<exists>t1 t2. normalizeTask parseExample 0
        (emptyTask\<lparr>name := Some ''n'', due_date := Some ''2024-04-15'', title := Some []\<rparr>) = Inr t1
      \<and> normalizeTask parseExample 1
        (emptyTask\<lparr>name := Some ''n'', due_date := Some ''2024-04-15'', title := None\<rparr>) = Inr t2
      \<and> t1\<lparr>n_normalizedAt := []\<rparr> = t2\<lparr>n_normalizedAt := []\<rparr>)
   \<and> (\<exists>t1 t2. normalizeTask parseExample 0
        (emptyTask\<lparr>name := Some ''n'', due_date := Some ''2024-04-15'', due := Some []\<rparr>) = Inr t1
      \<and> normalizeTask parseExample 1
        (emptyTask\<lparr>name := Some ''n'', due_date := Some ''2024-04-15'', due := None\<rparr>) = Inr t2
      \<and> t1\<lparr>n_normalizedAt := []\<rparr> = t2\<lparr>n_normalizedAt := []\<rparr>)"
proof -
  note th = empty_string_as_absent
    [of parseExample 0 "emptyTask\<lparr>name := Some ''n'', due_date := Some ''2024-04-15''\<rparr>" 1]
  have 1: "\<exists>t1 t2. normalizeTask parseExample 0
        (emptyTask\<lparr>name := Some ''n'', due_date := Some ''2024-04-15'', title := Some []\<rparr>) = Inr t1
      \<and> normalizeTask parseExample 1
        (emptyTask\<lparr>name := Some ''n'', due_date := Some ''2024-04-15'', title := None\<rparr>) = Inr t2
      \<and> t1\<lparr>n_normalizedAt := []\<rparr> = t2\<lparr>n_normalizedAt := []\<rparr>"
    using th by (elim conjE)
  have 2: "\<exists>t1 t2. normalizeTask parseExample 0
        (emptyTask\<lparr>name := Some ''n'', due_date := Some ''2024-04-15'', due := Some []\<rparr>) = Inr t1
      \<and> normalizeTask parseExample 1
        (emptyTask\<lparr>name := Some ''n'', due_date := Some ''2024-04-15'', due := None\<rparr>) = Inr t2
      \<and> t1\<lparr>n_normalizedAt := []\<rparr> = t2\<lparr>n_normalizedAt := []\<rparr>"
    using th by (elim conjE)
  show ?thesis using 1 2 by (rule conjI)
qed

end
